theory Spec2Isabelle
  imports Main "HOL-Library.Word"
begin

section \<open>Values shared by all components\<close>

text \<open>
  A JavaScript string is a sequence of UTF-16 code units. The payload of a print job is
  such a string; it is opaque to the queue and to the manager and is only encoded by the
  serial adapter. Messages of errors are plain text and are kept as \<open>string\<close>.
  A promise that settles is modelled by its outcome: \<open>Inr ()\<close> when it resolves,
  \<open>Inl e\<close> when it rejects with (or the function throws) the error \<open>e\<close>.
\<close>

type_synonym jsString = "16 word list"

datatype jsError = Error (message: string)

type_synonym outcome = "jsError + unit"

section \<open>PrintQueue (src/lib/printQueue.ts)\<close>

text \<open>
  A queued job is the payload with the \<open>resolve\<close> and \<open>reject\<close> callbacks of the
  promise that \<open>enqueue\<close> returned. The promise is identified by the number of promises
  created before it (\<open>handle\<close>); calling \<open>resolve\<close> or \<open>reject\<close> is recorded in
  \<open>observed\<close>, as is every call of \<open>printFunction\<close>.

  \<open>processQueue\<close> is an async function: it runs until its \<open>await\<close> and is resumed
  when the promise of \<open>printFunction\<close> settles. An activation suspended at the
  \<open>await\<close> keeps its local variable \<open>job\<close>; the suspended activations are the list
  \<open>awaiting\<close>. Nothing in the state bounds their number: that at most one exists is a
  theorem about the code, not a property of the type.
\<close>

record job =
  data :: jsString
  handle :: nat

datatype qevent =
    Invoked jsString
  | Resolved nat
  | Rejected nat jsError

record PrintQueue =
  queue :: "job list"
  processing :: bool
  awaiting :: "job list"
  promises :: nat
  observed :: "qevent list"


text \<open>
  \<open>processQueue\<close> up to its first suspension, and \<open>processQueue_while\<close>, the loop from
  its head: with a job in the queue it shifts the job, calls \<open>printFunction\<close> and suspends;
  with none it leaves the loop, resets the flag and re-checks the queue.
\<close>

function processQueue :: "PrintQueue \<Rightarrow> PrintQueue"
  and processQueue_while :: "PrintQueue \<Rightarrow> PrintQueue" where
  "processQueue s =
     (if processing s \<or> length (queue s) = 0 then s
      else processQueue_while (s\<lparr>processing := True\<rparr>))"
| "processQueue_while s =
     (case queue s of
        j # rest \<Rightarrow>
          s\<lparr>queue := rest,
            observed := observed s @ [Invoked (data j)],
            awaiting := awaiting s @ [j]\<rparr>
      | [] \<Rightarrow>
          (let s' = s\<lparr>processing := False\<rparr>
           in if length (queue s') > 0 then processQueue s' else s'))"
  by pat_completeness auto
termination
  by (relation "measure (\<lambda>x. case x of Inl _ \<Rightarrow> Suc 0 | Inr _ \<Rightarrow> 0)") auto

declare processQueue.simps [simp del] processQueue_while.simps [simp del]

definition enqueue :: "jsString \<Rightarrow> PrintQueue \<Rightarrow> PrintQueue" where
  "enqueue d s =
     (let s1 = s\<lparr>queue := queue s @ [\<lparr>data = d, handle = promises s\<rparr>],
                 promises := Suc (promises s)\<rparr>
      in if \<not> processing s1 then processQueue s1 else s1)"

text \<open>
  The promise awaited by the \<open>i\<close>-th suspended activation settles with outcome \<open>r\<close>:
  the activation resumes, settles the handle of its job and goes back to the loop head.
  Every error of this model is an \<open>Error\<close> object, so the source's
  \<open>error instanceof Error ? error : new Error(String(error))\<close> is the error itself.
  With no such activation nothing happens.
\<close>

definition resume :: "nat \<Rightarrow> outcome \<Rightarrow> PrintQueue \<Rightarrow> PrintQueue" where
  "resume i r s =
     (if i < length (awaiting s) then
        (let j = awaiting s ! i;
             s1 = s\<lparr>awaiting := take i (awaiting s) @ drop (Suc i) (awaiting s),
                     observed := observed s @
                       [case r of Inr _ \<Rightarrow> Resolved (handle j)
                                | Inl e \<Rightarrow> Rejected (handle j) e]\<rparr>
         in processQueue_while s1)
      else s)"

definition clear :: "PrintQueue \<Rightarrow> PrintQueue" where
  "clear s =
     s\<lparr>queue := [],
       observed := observed s @
         map (\<lambda>j. Rejected (handle j) (Error ''Print queue was cleared'')) (queue s)\<rparr>"

definition getQueueLength :: "PrintQueue \<Rightarrow> nat" where
  "getQueueLength s = length (queue s)"

definition isProcessing :: "PrintQueue \<Rightarrow> bool" where
  "isProcessing s = processing s"

text \<open>
  What can happen to a queue: a caller enqueues, a caller clears, or the promise of a
  pending \<open>printFunction\<close> call settles. JavaScript runs each of these to completion
  before the next, so a history of the queue is a list of them, in any order.
\<close>

datatype qinput = Enqueue jsString | Settle nat outcome | Clear

fun qstep :: "qinput \<Rightarrow> PrintQueue \<Rightarrow> PrintQueue" where
  "qstep (Enqueue d) s = enqueue d s"
| "qstep (Settle i r) s = resume i r s"
| "qstep Clear s = clear s"

fun qrun :: "qinput list \<Rightarrow> PrintQueue \<Rightarrow> PrintQueue" where
  "qrun [] s = s"
| "qrun (c # cs) s = qrun cs (qstep c s)"

fun isClear :: "qinput \<Rightarrow> bool" where
  "isClear Clear = True"
| "isClear _ = False"

fun submitted :: "qinput list \<Rightarrow> jsString list" where
  "submitted [] = []"
| "submitted (Enqueue d # cs) = d # submitted cs"
| "submitted (_ # cs) = submitted cs"


text \<open>
  The invariant of the queue: the flag is set exactly while an activation of
  \<open>processQueue\<close> is suspended, there is at most one such activation, and jobs wait in
  the queue only while one is.
\<close>

definition qinv :: "PrintQueue \<Rightarrow> bool" where
  "qinv s \<longleftrightarrow>
     (processing s \<longleftrightarrow> awaiting s \<noteq> []) \<and> length (awaiting s) \<le> 1 \<and>
     (awaiting s = [] \<longrightarrow> queue s = [])"


text \<open>The handles of the jobs that are in flight or queued.\<close>

definition unsettled :: "PrintQueue \<Rightarrow> nat list" where
  "unsettled s = map handle (awaiting s @ queue s)"



section \<open>IPrinterAdapter and PrinterConfig (src/types/index.ts)\<close>

text \<open>
  An adapter is used through its four methods only. The state \<open>'a\<close> they act on is the
  adapter object together with the device and the libraries it talks to. Each method
  is modelled by the outcome it settles with and the state it leaves.
\<close>

record 'a IPrinterAdapter =
  connect :: "'a \<Rightarrow> outcome \<times> 'a"
  disconnect :: "'a \<Rightarrow> outcome \<times> 'a"
  isConnected :: "'a \<Rightarrow> bool"
  print :: "jsString \<Rightarrow> 'a \<Rightarrow> outcome \<times> 'a"

datatype interface = Usb | Serial | Mock

text \<open>
  \<open>maxRetries\<close> and \<open>retryDelayMs\<close> are JavaScript numbers that \<open>parseInt\<close> produced.
  They are modelled as integers: on integers of magnitude below \<open>2 ^ 53\<close> the comparisons
  and the increment of the retry loop are exact and the number prints in decimal.
\<close>

record PrinterConfig =
  interface :: interface
  usbName :: "string option"
  serialPort :: "string option"
  maxRetries :: int
  retryDelayMs :: int

section \<open>PrinterManager (src/lib/printerManager.ts)\<close>

text \<open>
  The manager's world is the state of its adapter and the list of what the manager did
  to it, in order: each call of an adapter method with the outcome it had, each delay,
  and each warning written by the reconnect step.
\<close>

datatype mevent =
    Connect outcome
  | Disconnect outcome
  | Print jsString outcome
  | Delay int
  | Warn int jsError

record 'a mstate =
  device :: 'a
  calls :: "mevent list"

text \<open>
  The template literal prints \<open>maxRetries\<close> as JavaScript prints a number. For an
  integer of magnitude below \<open>2 ^ 53\<close> that is its decimal form, which \<open>showInt\<close>
  gives; from \<open>10 ^ 21\<close> on JavaScript prints in exponent form, which \<open>showInt\<close> does
  not follow, so a statement that fixes the printed number is made within that bound.
\<close>

fun showNat :: "nat \<Rightarrow> string" where
  "showNat n =
     (if n < 10 then [char_of (48 + n)]
      else showNat (n div 10) @ [char_of (48 + n mod 10)])"

declare showNat.simps [simp del]

definition showInt :: "int \<Rightarrow> string" where
  "showInt i = (if i < 0 then CHR ''-'' # showNat (nat (- i)) else showNat (nat i))"

definition PrinterManager_connect ::
  "'a IPrinterAdapter option \<Rightarrow> 'a mstate \<Rightarrow> outcome \<times> 'a mstate" where
  "PrinterManager_connect ad w =
     (case ad of
        None \<Rightarrow> (Inl (Error ''Printer adapter is not initialized''), w)
      | Some a \<Rightarrow>
          (case connect a (device w) of
             (r, dev) \<Rightarrow> (r, w\<lparr>device := dev, calls := calls w @ [Connect r]\<rparr>)))"

definition PrinterManager_disconnect ::
  "'a IPrinterAdapter option \<Rightarrow> 'a mstate \<Rightarrow> outcome \<times> 'a mstate" where
  "PrinterManager_disconnect ad w =
     (case ad of
        None \<Rightarrow> (Inr (), w)
      | Some a \<Rightarrow>
          (case disconnect a (device w) of
             (r, dev) \<Rightarrow> (r, w\<lparr>device := dev, calls := calls w @ [Disconnect r]\<rparr>)))"

definition PrinterManager_isConnected :: "'a IPrinterAdapter option \<Rightarrow> 'a mstate \<Rightarrow> bool" where
  "PrinterManager_isConnected ad w =
     (case ad of None \<Rightarrow> False | Some a \<Rightarrow> isConnected a (device w))"

definition delay :: "int \<Rightarrow> 'a mstate \<Rightarrow> 'a mstate" where
  "delay ms w = w\<lparr>calls := calls w @ [Delay ms]\<rparr>"

definition warn :: "int \<Rightarrow> jsError \<Rightarrow> 'a mstate \<Rightarrow> 'a mstate" where
  "warn n e w = w\<lparr>calls := calls w @ [Warn n e]\<rparr>"

text \<open>
  The inner \<open>try\<close> of the retry loop: \<open>await this.disconnect(); await this.connect();\<close>
  with the \<open>catch\<close> that only warns. An error of \<open>disconnect\<close> leaves the \<open>try\<close> block
  before \<open>connect\<close> is reached.
\<close>

definition reconnect :: "'a IPrinterAdapter \<Rightarrow> int \<Rightarrow> 'a mstate \<Rightarrow> 'a mstate" where
  "reconnect a attempt w =
     (case PrinterManager_disconnect (Some a) w of
        (Inl reconnectError, w1) \<Rightarrow> warn (attempt + 1) reconnectError w1
      | (Inr _, w1) \<Rightarrow>
          (case PrinterManager_connect (Some a) w1 of
             (Inl reconnectError, w2) \<Rightarrow> warn (attempt + 1) reconnectError w2
           | (Inr _, w2) \<Rightarrow> w2))"

definition exhausted :: "PrinterConfig \<Rightarrow> jsError option \<Rightarrow> jsError" where
  "exhausted cfg lastError =
     Error (''Print failed after '' @ showInt (maxRetries cfg) @ '' attempts. Last error: '' @
            (case lastError of
               None \<Rightarrow> ''Unknown error''
             | Some e \<Rightarrow> if message e = [] then ''Unknown error'' else message e))"

text \<open>
  The \<open>for\<close> loop of \<open>print\<close>, from the test of its condition, with the loop variable
  \<open>attempt\<close> and the variable \<open>lastError\<close> (\<open>None\<close> for \<open>null\<close>).
\<close>

function retryLoop ::
  "'a IPrinterAdapter \<Rightarrow> PrinterConfig \<Rightarrow> jsString \<Rightarrow> int \<Rightarrow> jsError option \<Rightarrow> 'a mstate
     \<Rightarrow> outcome \<times> 'a mstate" where
  "retryLoop a cfg d attempt lastError w =
     (if attempt \<le> maxRetries cfg then
        (case print a d (device w) of
           (Inr _, dev) \<Rightarrow> (Inr (), w\<lparr>device := dev, calls := calls w @ [Print d (Inr ())]\<rparr>)
         | (Inl e, dev) \<Rightarrow>
             (let w1 = w\<lparr>device := dev, calls := calls w @ [Print d (Inl e)]\<rparr>;
                  w2 = (if attempt < maxRetries cfg
                        then reconnect a attempt (delay (retryDelayMs cfg) w1)
                        else w1)
              in retryLoop a cfg d (attempt + 1) (Some e) w2))
      else (Inl (exhausted cfg lastError), w))"
  by pat_completeness auto
termination
  by (relation "measure (\<lambda>(a, cfg, d, attempt, lastError, w). nat (maxRetries cfg + 1 - attempt))")
     auto

declare retryLoop.simps [simp del]

definition PrinterManager_print ::
  "'a IPrinterAdapter option \<Rightarrow> PrinterConfig \<Rightarrow> jsString \<Rightarrow> 'a mstate \<Rightarrow> outcome \<times> 'a mstate" where
  "PrinterManager_print ad cfg d w =
     (case ad of
        None \<Rightarrow> (Inl (Error ''Printer adapter is not initialized''), w)
      | Some a \<Rightarrow>
          if \<not> isConnected a (device w) then
            (case PrinterManager_connect ad w of
               (Inl e, w1) \<Rightarrow> (Inl e, w1)
             | (Inr _, w1) \<Rightarrow> retryLoop a cfg d 1 None w1)
          else retryLoop a cfg d 1 None w)"

fun isPrint :: "mevent \<Rightarrow> bool" where
  "isPrint (Print d r) = True"
| "isPrint _ = False"

fun isConnect :: "mevent \<Rightarrow> bool" where
  "isConnect (Connect r) = True"
| "isConnect _ = False"

fun isPrintOk :: "mevent \<Rightarrow> bool" where
  "isPrintOk (Print d (Inr _)) = True"
| "isPrintOk _ = False"

text \<open>
  The value of \<open>lastError\<close> after the events \<open>es\<close>, when it was \<open>l\<close> before them: the
  error of the latest failed call of the adapter's \<open>print\<close>.
\<close>

fun lastFailure :: "jsError option \<Rightarrow> mevent list \<Rightarrow> jsError option" where
  "lastFailure l [] = l"
| "lastFailure l (Print d (Inl e) # es) = lastFailure (Some e) es"
| "lastFailure l (_ # es) = lastFailure l es"

text \<open>
  What a run of the retry loop from \<open>attempt\<close> with outcome \<open>r\<close> adds to the calls:
  it resolves right after the only successful call of \<open>print\<close>, or it rejects with the
  exhaustion error after one failed call for each remaining attempt.
\<close>

definition retrySpec ::
  "PrinterConfig \<Rightarrow> jsString \<Rightarrow> int \<Rightarrow> jsError option \<Rightarrow> outcome \<Rightarrow> mevent list \<Rightarrow> bool" where
  "retrySpec cfg d attempt l r new \<longleftrightarrow>
     (case r of
        Inr _ \<Rightarrow> (\<exists>pre. new = pre @ [Print d (Inr ())] \<and> (\<forall>ev\<in>set pre. \<not> isPrintOk ev))
      | Inl e \<Rightarrow> (\<forall>ev\<in>set new. \<not> isPrintOk ev) \<and>
                 length (filter isPrint new) = nat (maxRetries cfg + 1 - attempt) \<and>
                 e = exhausted cfg (lastFailure l new))"


section \<open>BaseAdapter (src/lib/adapters/baseAdapter.ts)\<close>

record BaseAdapter =
  connected :: bool

definition BaseAdapter_isConnected :: "'z BaseAdapter_scheme \<Rightarrow> bool" where
  "BaseAdapter_isConnected a = connected a"

definition ensureConnected :: "'z BaseAdapter_scheme \<Rightarrow> outcome" where
  "ensureConnected a = (if \<not> connected a then Inl (Error ''Printer is not connected'') else Inr ())"

text \<open>
  What a transport call answers is decided outside the program. Each kind of call takes
  its answers from a list, in order: \<open>None\<close> for success, \<open>Some m\<close> for a failure with
  message \<open>m\<close>; when the list is used up the call succeeds.
\<close>

fun reply :: "string option list \<Rightarrow> string option \<times> string option list" where
  "reply [] = (None, [])"
| "reply (r # rs) = (r, rs)"

definition quoted :: "string \<Rightarrow> string" where
  "quoted s = [CHR 0x22] @ s @ [CHR 0x22]"

section \<open>SerialAdapter (src/lib/adapters/serialAdapter.ts)\<close>

type_synonym byte = "8 word"

text \<open>
  \<open>Buffer.from(data, "utf8")\<close> of the platform: the UTF-16 code units are read as code
  points (a high surrogate followed by a low one is one code point, any other surrogate
  is replaced by U+FFFD) and each code point is written in UTF-8.
\<close>

definition highSurrogate :: "16 word \<Rightarrow> bool" where
  "highSurrogate u \<longleftrightarrow> 0xD800 \<le> unat u \<and> unat u \<le> 0xDBFF"

definition lowSurrogate :: "16 word \<Rightarrow> bool" where
  "lowSurrogate u \<longleftrightarrow> 0xDC00 \<le> unat u \<and> unat u \<le> 0xDFFF"

definition loneUnit :: "16 word \<Rightarrow> nat" where
  "loneUnit u = (if highSurrogate u \<or> lowSurrogate u then 0xFFFD else unat u)"

fun codePoints :: "jsString \<Rightarrow> nat list" where
  "codePoints [] = []"
| "codePoints [u] = [loneUnit u]"
| "codePoints (u # v # rest) =
     (if highSurrogate u \<and> lowSurrogate v
      then (0x10000 + (unat u - 0xD800) * 0x400 + (unat v - 0xDC00)) # codePoints rest
      else loneUnit u # codePoints (v # rest))"

definition utf8CodePoint :: "nat \<Rightarrow> byte list" where
  "utf8CodePoint c =
     (if c < 0x80 then [of_nat c]
      else if c < 0x800 then [of_nat (0xC0 + c div 0x40), of_nat (0x80 + c mod 0x40)]
      else if c < 0x10000 then
        [of_nat (0xE0 + c div 0x1000), of_nat (0x80 + c div 0x40 mod 0x40),
         of_nat (0x80 + c mod 0x40)]
      else
        [of_nat (0xF0 + c div 0x40000), of_nat (0x80 + c div 0x1000 mod 0x40),
         of_nat (0x80 + c div 0x40 mod 0x40), of_nat (0x80 + c mod 0x40)])"

definition utf8 :: "jsString \<Rightarrow> byte list" where
  "utf8 s = concat (map utf8CodePoint (codePoints s))"

text \<open>
  The serial port library and the device behind it. A \<open>SerialPortStream\<close> object is
  identified by the number of objects constructed before it. \<open>opened\<close> lists the objects
  whose \<open>isOpen\<close> is true, \<open>wire\<close> the operations issued on ports, in order. A \<open>close\<close>
  that reports an error leaves the port open.
\<close>

datatype portOp =
    PortOpen nat
  | PortClose nat
  | PortWrite nat "byte list"
  | PortDrain nat

record SerialEnv =
  created :: nat
  opened :: "nat list"
  wire :: "portOp list"
  ctorReplies :: "string option list"
  openReplies :: "string option list"
  closeReplies :: "string option list"
  writeReplies :: "string option list"
  drainReplies :: "string option list"

record SerialAdapter = BaseAdapter +
  port :: "nat option"
  comPort :: string
  baudRate :: nat

definition SerialAdapter_connect ::
  "SerialAdapter \<times> SerialEnv \<Rightarrow> outcome \<times> SerialAdapter \<times> SerialEnv" where
  "SerialAdapter_connect = (\<lambda>(a, w).
     (case reply (ctorReplies w) of
        (Some m, rs) \<Rightarrow>
          (Inl (Error (''Failed to create serial port connection: '' @ m)),
           a\<lparr>connected := False\<rparr>, w\<lparr>ctorReplies := rs\<rparr>)
      | (None, rs) \<Rightarrow>
          (let p = created w;
               a1 = a\<lparr>port := Some p\<rparr>;
               w1 = w\<lparr>ctorReplies := rs, created := Suc p, wire := wire w @ [PortOpen p]\<rparr>
           in case reply (openReplies w1) of
                (Some m, os) \<Rightarrow>
                  (Inl (Error (''Failed to open serial port '' @ quoted (comPort a) @ '': '' @ m)),
                   a1\<lparr>connected := False\<rparr>, w1\<lparr>openReplies := os\<rparr>)
              | (None, os) \<Rightarrow>
                  (Inr (), a1\<lparr>connected := True\<rparr>,
                   w1\<lparr>openReplies := os, opened := opened w1 @ [p]\<rparr>))))"

definition SerialAdapter_disconnect ::
  "SerialAdapter \<times> SerialEnv \<Rightarrow> outcome \<times> SerialAdapter \<times> SerialEnv" where
  "SerialAdapter_disconnect = (\<lambda>(a, w).
     (case port a of
        None \<Rightarrow> (Inr (), a\<lparr>connected := False\<rparr>, w)
      | Some p \<Rightarrow>
          if p \<notin> set (opened w) then (Inr (), a\<lparr>connected := False, port := None\<rparr>, w)
          else
            (case reply (closeReplies w) of
               (Some m, cs) \<Rightarrow>
                 (Inl (Error (''Failed to close serial port: '' @ m)),
                  a\<lparr>connected := False, port := None\<rparr>,
                  w\<lparr>closeReplies := cs, wire := wire w @ [PortClose p]\<rparr>)
             | (None, cs) \<Rightarrow>
                 (Inr (), a\<lparr>connected := False, port := None\<rparr>,
                  w\<lparr>closeReplies := cs, wire := wire w @ [PortClose p],
                    opened := removeAll p (opened w)\<rparr>))))"

definition initCommand :: "byte list" where
  "initCommand = [0x1b, 0x40]"

definition cutCommand :: "byte list" where
  "cutCommand = [0x1d, 0x56, 0x41, 0x00]"

definition printBuffer :: "jsString \<Rightarrow> byte list" where
  "printBuffer d = concat [initCommand, utf8 d, utf8 [0x0A, 0x0A], cutCommand]"

definition SerialAdapter_print ::
  "jsString \<Rightarrow> SerialAdapter \<times> SerialEnv \<Rightarrow> outcome \<times> SerialAdapter \<times> SerialEnv" where
  "SerialAdapter_print d = (\<lambda>(a, w).
     (case ensureConnected a of
        Inl e \<Rightarrow> (Inl e, a, w)
      | Inr _ \<Rightarrow>
          (case port a of
             None \<Rightarrow> (Inl (Error ''Serial port is not open''), a, w)
           | Some p \<Rightarrow>
               if p \<notin> set (opened w) then (Inl (Error ''Serial port is not open''), a, w)
               else
                 (let w1 = w\<lparr>wire := wire w @ [PortWrite p (printBuffer d)]\<rparr>
                  in case reply (writeReplies w1) of
                       (Some m, ws) \<Rightarrow>
                         (Inl (Error (''Failed to write to serial port: '' @ m)),
                          a, w1\<lparr>writeReplies := ws\<rparr>)
                     | (None, ws) \<Rightarrow>
                         (let w2 = w1\<lparr>writeReplies := ws, wire := wire w1 @ [PortDrain p]\<rparr>
                          in case reply (drainReplies w2) of
                               (Some m, ds) \<Rightarrow>
                                 (Inl (Error (''Failed to drain serial port: '' @ m)),
                                  a, w2\<lparr>drainReplies := ds\<rparr>)
                             | (None, ds) \<Rightarrow> (Inr (), a, w2\<lparr>drainReplies := ds\<rparr>))))))"

definition SerialAdapter_methods :: "(SerialAdapter \<times> SerialEnv) IPrinterAdapter" where
  "SerialAdapter_methods =
     \<lparr>connect = SerialAdapter_connect, disconnect = SerialAdapter_disconnect,
      isConnected = (\<lambda>(a, w). BaseAdapter_isConnected a), print = SerialAdapter_print\<rparr>"

section \<open>USBAdapter (adapters/usbAdapter.ts)\<close>

text \<open>
  The \<open>ThermalPrinter\<close> objects of the printing library, identified like the ports.
  \<open>spool\<close> lists the operations issued on them. \<open>isPrinterConnected\<close> answers true,
  answers false or throws; with no answer left it answers true.
\<close>

datatype probe = Online | Offline | ProbeThrows string

fun probeReply :: "probe list \<Rightarrow> probe \<times> probe list" where
  "probeReply [] = (Online, [])"
| "probeReply (r # rs) = (r, rs)"

datatype tpOp =
    TpIsPrinterConnected nat
  | TpClear nat
  | TpPrintln nat jsString
  | TpExecute nat

record UsbEnv =
  printers :: nat
  spool :: "tpOp list"
  newReplies :: "string option list"
  probeReplies :: "probe list"
  executeReplies :: "string option list"

record USBAdapter = BaseAdapter +
  printer :: "nat option"
  printerName :: string

definition connectFailed :: "string \<Rightarrow> string \<Rightarrow> jsError" where
  "connectFailed name m =
     Error (''Failed to connect to USB printer '' @ quoted name @ '': '' @ m)"

definition USBAdapter_connect ::
  "USBAdapter \<times> UsbEnv \<Rightarrow> outcome \<times> USBAdapter \<times> UsbEnv" where
  "USBAdapter_connect = (\<lambda>(a, w).
     (case reply (newReplies w) of
        (Some m, rs) \<Rightarrow>
          (Inl (connectFailed (printerName a) m), a\<lparr>connected := False\<rparr>, w\<lparr>newReplies := rs\<rparr>)
      | (None, rs) \<Rightarrow>
          (let p = printers w;
               a1 = a\<lparr>printer := Some p\<rparr>;
               w1 = w\<lparr>newReplies := rs, printers := Suc p,
                      spool := spool w @ [TpIsPrinterConnected p]\<rparr>
           in case probeReply (probeReplies w1) of
                (ProbeThrows m, ps) \<Rightarrow>
                  (Inl (connectFailed (printerName a) m),
                   a1\<lparr>connected := False\<rparr>, w1\<lparr>probeReplies := ps\<rparr>)
              | (Offline, ps) \<Rightarrow>
                  (Inl (connectFailed (printerName a)
                          (''USB printer '' @ quoted (printerName a) @ '' is not connected'')),
                   a1\<lparr>connected := False\<rparr>, w1\<lparr>probeReplies := ps\<rparr>)
              | (Online, ps) \<Rightarrow>
                  (Inr (), a1\<lparr>connected := True\<rparr>, w1\<lparr>probeReplies := ps\<rparr>))))"

definition USBAdapter_disconnect ::
  "USBAdapter \<times> UsbEnv \<Rightarrow> outcome \<times> USBAdapter \<times> UsbEnv" where
  "USBAdapter_disconnect = (\<lambda>(a, w). (Inr (), a\<lparr>connected := False, printer := None\<rparr>, w))"

definition USBAdapter_print ::
  "jsString \<Rightarrow> USBAdapter \<times> UsbEnv \<Rightarrow> outcome \<times> USBAdapter \<times> UsbEnv" where
  "USBAdapter_print d = (\<lambda>(a, w).
     (case ensureConnected a of
        Inl e \<Rightarrow> (Inl e, a, w)
      | Inr _ \<Rightarrow>
          (case printer a of
             None \<Rightarrow> (Inl (Error ''Printer instance is not available''), a, w)
           | Some p \<Rightarrow>
               (let w1 = w\<lparr>spool := spool w @ [TpClear p, TpPrintln p d, TpExecute p]\<rparr>
                in case reply (executeReplies w1) of
                     (Some m, es) \<Rightarrow>
                       (Inl (Error (''Failed to print: '' @ m)), a, w1\<lparr>executeReplies := es\<rparr>)
                   | (None, es) \<Rightarrow> (Inr (), a, w1\<lparr>executeReplies := es\<rparr>)))))"

definition USBAdapter_methods :: "(USBAdapter \<times> UsbEnv) IPrinterAdapter" where
  "USBAdapter_methods =
     \<lparr>connect = USBAdapter_connect, disconnect = USBAdapter_disconnect,
      isConnected = (\<lambda>(a, w). BaseAdapter_isConnected a), print = USBAdapter_print\<rparr>"

section \<open>MockAdapter (adapters/mockAdapter.ts)\<close>

text \<open>
  The mock adapter has no transport. Its output is the console, of which the model keeps
  the payloads written by \<open>print\<close> (the fixed decoration and status lines are left out),
  and the timers it waits for.
\<close>

record MockEnv =
  console :: "jsString list"
  timers :: "int list"

record MockAdapter = BaseAdapter +
  delayMs :: int

definition MockAdapter_delay :: "int \<Rightarrow> MockEnv \<Rightarrow> MockEnv" where
  "MockAdapter_delay ms w = w\<lparr>timers := timers w @ [ms]\<rparr>"

definition MockAdapter_connect ::
  "MockAdapter \<times> MockEnv \<Rightarrow> outcome \<times> MockAdapter \<times> MockEnv" where
  "MockAdapter_connect = (\<lambda>(a, w).
     (Inr (), a\<lparr>connected := True\<rparr>, MockAdapter_delay (delayMs a) w))"

definition MockAdapter_disconnect ::
  "MockAdapter \<times> MockEnv \<Rightarrow> outcome \<times> MockAdapter \<times> MockEnv" where
  "MockAdapter_disconnect = (\<lambda>(a, w). (Inr (), a\<lparr>connected := False\<rparr>, w))"

definition MockAdapter_print ::
  "jsString \<Rightarrow> MockAdapter \<times> MockEnv \<Rightarrow> outcome \<times> MockAdapter \<times> MockEnv" where
  "MockAdapter_print d = (\<lambda>(a, w).
     (case ensureConnected a of
        Inl e \<Rightarrow> (Inl e, a, w)
      | Inr _ \<Rightarrow> (Inr (), a, MockAdapter_delay (delayMs a) (w\<lparr>console := console w @ [d]\<rparr>))))"

definition MockAdapter_methods :: "(MockAdapter \<times> MockEnv) IPrinterAdapter" where
  "MockAdapter_methods =
     \<lparr>connect = MockAdapter_connect, disconnect = MockAdapter_disconnect,
      isConnected = (\<lambda>(a, w). BaseAdapter_isConnected a), print = MockAdapter_print\<rparr>"


section \<open>Sample configurations\<close>

text \<open>
  Concrete adapters, devices and configurations on which the theorems below are
  evaluated: a connected USB adapter whose printer answers \<open>execute\<close> with the given
  replies, a USB adapter that is not connected and whose printer is off line, a
  connected serial adapter on an open port, a serial adapter that was never connected,
  and a configuration with the given \<open>maxRetries\<close> and a delay of 10 ms.
\<close>

definition sampleConfig :: "int \<Rightarrow> PrinterConfig" where
  "sampleConfig k =
     \<lparr>interface = Usb, usbName = Some ''POS-80'', serialPort = None,
      maxRetries = k, retryDelayMs = 10\<rparr>"

definition usbReady :: "string option list \<Rightarrow> (USBAdapter \<times> UsbEnv) mstate" where
  "usbReady es =
     \<lparr>device =
        (\<lparr>connected = True, printer = Some 0, printerName = ''POS-80''\<rparr>,
         \<lparr>printers = 1, spool = [], newReplies = [], probeReplies = [], executeReplies = es\<rparr>),
      calls = []\<rparr>"

definition usbOffline :: "(USBAdapter \<times> UsbEnv) mstate" where
  "usbOffline =
     \<lparr>device =
        (\<lparr>connected = False, printer = None, printerName = ''POS-80''\<rparr>,
         \<lparr>printers = 0, spool = [], newReplies = [], probeReplies = [Offline],
          executeReplies = []\<rparr>),
      calls = []\<rparr>"

definition serialOpen :: "SerialAdapter" where
  "serialOpen = \<lparr>connected = True, port = Some 0, comPort = ''COM3'', baudRate = 9600\<rparr>"

definition serialNew :: "SerialAdapter" where
  "serialNew = \<lparr>connected = False, port = None, comPort = ''COM3'', baudRate = 9600\<rparr>"

definition serialEnv ::
  "nat list \<Rightarrow> string option list \<Rightarrow> string option list \<Rightarrow> string option list \<Rightarrow> SerialEnv" where
  "serialEnv ps os cs ws =
     \<lparr>created = 1, opened = ps, wire = [], ctorReplies = [], openReplies = os,
      closeReplies = cs, writeReplies = ws, drainReplies = []\<rparr>"

section \<open>Properties\<close>




lemma qinv_while: "length (awaiting s) = 0 \<Longrightarrow> processing s \<Longrightarrow> qinv (processQueue_while s)"
  by (cases "queue s") (simp_all add: processQueue_while.simps qinv_def Let_def)


lemma awaiting_single:
  "qinv s \<Longrightarrow> i < length (awaiting s) \<Longrightarrow> i = 0 \<and> (\<exists>j. awaiting s = [j]) \<and> processing s"
  by (cases "awaiting s") (auto simp: qinv_def)

lemma qinv_resume: "qinv s \<Longrightarrow> qinv (resume i r s)"
proof (cases "i < length (awaiting s)")
  case True
  assume "qinv s"
  with True obtain j where "i = 0" "awaiting s = [j]" "processing s"
    using awaiting_single by blast
  then show ?thesis
    by (simp add: resume_def Let_def qinv_while)
next
  case False
  assume "qinv s"
  with False show ?thesis by (simp add: resume_def)
qed











lemma drain: "qinv s \<Longrightarrow> length rs = length (queue s) + length (awaiting s) \<Longrightarrow>
   queue (qrun (map (Settle 0) rs) s) = [] \<and> awaiting (qrun (map (Settle 0) rs) s) = []"
proof (induction rs arbitrary: s)
  case Nil
  then show ?case by simp
next
  case (Cons r rs)
  from Cons.prems have "awaiting s \<noteq> []" by (auto simp: qinv_def)
  with Cons.prems(1) obtain j where j: "awaiting s = [j]"
    using awaiting_single [of s 0] by auto
  have len: "length rs = length (queue (resume 0 r s)) + length (awaiting (resume 0 r s))"
    using Cons.prems(2) j
    by (cases "queue s") (simp_all add: resume_def Let_def processQueue_while.simps)
  have "qinv (resume 0 r s)" using Cons.prems(1) by (rule qinv_resume)
  from Cons.IH [OF this len] show ?case by simp
qed

lemma settles_not_clear: "\<forall>c\<in>set (map (Settle 0) rs). \<not> isClear c"
  by simp


lemma submitted_append: "submitted (xs @ ys) = submitted xs @ submitted ys"
  by (induction xs rule: submitted.induct) simp_all





lemma unsettled_flag [simp]: "unsettled (s\<lparr>processing := b\<rparr>) = unsettled s"
  by (simp add: unsettled_def)











lemma isPrintOk_isPrint: "isPrintOk ev \<Longrightarrow> isPrint ev"
  by (cases ev rule: isPrintOk.cases) simp_all

lemma lastFailure_append: "lastFailure l (xs @ ys) = lastFailure (lastFailure l xs) ys"
  by (induction l xs rule: lastFailure.induct) simp_all

lemma lastFailure_quiet: "\<forall>ev\<in>set xs. \<not> isPrint ev \<Longrightarrow> lastFailure l xs = l"
  by (induction l xs rule: lastFailure.induct) simp_all

lemma reconnect_calls:
  "\<exists>xs. calls (reconnect a n w) = calls w @ xs \<and> (\<forall>ev\<in>set xs. \<not> isPrint ev)"
  by (auto simp: reconnect_def PrinterManager_disconnect_def PrinterManager_connect_def warn_def
           split: prod.splits sum.splits)

lemma recover_calls:
  "\<exists>xs. calls (if b then reconnect a n (delay ms w) else w) = calls w @ xs \<and> (\<forall>ev\<in>set xs. \<not> isPrint ev)"
proof (cases b)
  case True
  obtain xs where "calls (reconnect a n (delay ms w)) = calls (delay ms w) @ xs" "\<forall>ev\<in>set xs. \<not> isPrint ev"
    using reconnect_calls by blast
  then have "calls (reconnect a n (delay ms w)) = calls w @ (Delay ms # xs) \<and> (\<forall>ev\<in>set (Delay ms # xs). \<not> isPrint ev)"
    by (simp add: delay_def)
  with True show ?thesis by (intro exI[of _ "Delay ms # xs"]) simp
next
  case False
  then show ?thesis by simp
qed

lemma retryLoop_spec:
  "\<exists>new. calls (snd (retryLoop a cfg d attempt l w)) = calls w @ new \<and>
          retrySpec cfg d attempt l (fst (retryLoop a cfg d attempt l w)) new"
proof (induction a cfg d attempt l w rule: retryLoop.induct)
  case (1 a cfg d attempt lastError w)
  show ?case
  proof (cases "attempt \<le> maxRetries cfg")
    case False
    then show ?thesis
      by (simp add: retryLoop.simps [of a cfg d attempt lastError w] retrySpec_def)
  next
    case le: True
    obtain r dev where p: "print a d (device w) = (r, dev)" by (cases "print a d (device w)")
    show ?thesis
    proof (cases r)
      case (Inr u)
      with le p show ?thesis
        by (simp add: retryLoop.simps [of a cfg d attempt lastError w] retrySpec_def)
    next
      case (Inl e)
      define w1 where "w1 = w\<lparr>device := dev, calls := calls w @ [Print d (Inl e)]\<rparr>"
      define w2 where "w2 = (if attempt < maxRetries cfg
                        then reconnect a attempt (delay (retryDelayMs cfg) w1) else w1)"
      have unfold: "retryLoop a cfg d attempt lastError w = retryLoop a cfg d (attempt + 1) (Some e) w2"
        using le p Inl
        by (simp add: retryLoop.simps [of a cfg d attempt lastError w] w1_def w2_def Let_def)
      obtain xs where xs: "calls w2 = calls w1 @ xs" "\<forall>ev\<in>set xs. \<not> isPrint ev"
        unfolding w2_def using recover_calls by blast
      from "1.IH" [OF le p [symmetric, unfolded Inl] refl, of w1 w2] 
      obtain new where new: "calls (snd (retryLoop a cfg d (attempt + 1) (Some e) w2)) = calls w2 @ new"
        "retrySpec cfg d (attempt + 1) (Some e) (fst (retryLoop a cfg d (attempt + 1) (Some e) w2)) new"
        unfolding w1_def w2_def by auto
      let ?all = "Print d (Inl e) # xs @ new"
      have c: "calls (snd (retryLoop a cfg d attempt lastError w)) = calls w @ ?all"
        using new(1) xs(1) unfold by (simp add: w1_def)
      have quiet: "\<forall>ev\<in>set xs. \<not> isPrintOk ev" using xs(2) isPrintOk_isPrint by blast
      have fl: "filter isPrint xs = []" using xs(2) by (simp add: filter_empty_conv)
      have lf: "lastFailure lastError ?all = lastFailure (Some e) new"
        using xs(2) by (simp add: lastFailure_append lastFailure_quiet)
      have "retrySpec cfg d attempt lastError (fst (retryLoop a cfg d attempt lastError w)) ?all"
      proof (cases "fst (retryLoop a cfg d (attempt + 1) (Some e) w2)")
        case (Inr u)
        with new(2) obtain pre where "new = pre @ [Print d (Inr ())]" "\<forall>ev\<in>set pre. \<not> isPrintOk ev"
          by (auto simp: retrySpec_def)
        then have "?all = (Print d (Inl e) # xs @ pre) @ [Print d (Inr ())] \<and> (\<forall>ev\<in>set (Print d (Inl e) # xs @ pre). \<not> isPrintOk ev)"
          using quiet by auto
        then show ?thesis unfolding retrySpec_def unfold Inr by (simp only: sum.case) blast
      next
        case (Inl e')
        with new(2) have "\<forall>ev\<in>set new. \<not> isPrintOk ev" 
          "length (filter isPrint new) = nat (maxRetries cfg + 1 - (attempt + 1))"
          "e' = exhausted cfg (lastFailure (Some e) new)"
          by (auto simp: retrySpec_def)
        then show ?thesis unfolding retrySpec_def unfold Inl using quiet fl lf le
          by (auto simp: nat_diff_distrib)
      qed
      with c show ?thesis by blast
    qed
  qed
qed

lemma lastFailure_stays: "lastFailure (Some e) es \<noteq> None"
  by (induction "Some e" es arbitrary: e rule: lastFailure.induct) simp_all

lemma lastFailure_failed:
  "filter isPrint xs \<noteq> [] \<Longrightarrow> \<forall>ev\<in>set xs. \<not> isPrintOk ev \<Longrightarrow> lastFailure l xs \<noteq> None"
  by (induction l xs rule: lastFailure.induct) (simp_all add: lastFailure_stays)

lemma retryLoop_head:
  "\<exists>new. calls (snd (retryLoop a cfg d attempt l w)) = calls w @ new \<and>
          (if attempt \<le> maxRetries cfg then \<exists>r rest. new = Print d r # rest else new = [])"
proof (cases "attempt \<le> maxRetries cfg")
  case False
  then show ?thesis by (simp add: retryLoop.simps [of a cfg d attempt l w])
next
  case le: True
  obtain r dev where p: "print a d (device w) = (r, dev)" by (cases "print a d (device w)")
  show ?thesis
  proof (cases r)
    case (Inr u)
    with le p show ?thesis by (simp add: retryLoop.simps [of a cfg d attempt l w])
  next
    case (Inl e)
    define w1 where "w1 = w\<lparr>device := dev, calls := calls w @ [Print d (Inl e)]\<rparr>"
    define w2 where "w2 = (if attempt < maxRetries cfg
                      then reconnect a attempt (delay (retryDelayMs cfg) w1) else w1)"
    have unfold: "retryLoop a cfg d attempt l w = retryLoop a cfg d (attempt + 1) (Some e) w2"
      using le p Inl
      by (simp add: retryLoop.simps [of a cfg d attempt l w] w1_def w2_def Let_def)
    obtain xs where xs: "calls w2 = calls w1 @ xs"
      unfolding w2_def using recover_calls by blast
    obtain new where "calls (snd (retryLoop a cfg d (attempt + 1) (Some e) w2)) = calls w2 @ new"
      using retryLoop_spec by blast
    with xs unfold have "calls (snd (retryLoop a cfg d attempt l w)) = calls w @ Print d (Inl e) # xs @ new"
      by (simp add: w1_def)
    with le show ?thesis by simp
  qed
qed

lemma retryLoop_outcome:
  "fst (retryLoop a cfg d attempt (Some e) w) = Inr () \<or>
   (\<exists>l. fst (retryLoop a cfg d attempt (Some e) w) = Inl (exhausted cfg (Some l)))"
proof -
  obtain new where s: "retrySpec cfg d attempt (Some e) (fst (retryLoop a cfg d attempt (Some e) w)) new"
    using retryLoop_spec by blast
  obtain l where "lastFailure (Some e) new = Some l"
    using lastFailure_stays [of e new] by auto
  with s show ?thesis
    by (cases "fst (retryLoop a cfg d attempt (Some e) w)") (auto simp: retrySpec_def)
qed

text \<open>
  Claim C2. With a connected adapter and \<open>maxRetries = k \<ge> 0\<close>, let \<open>new\<close> be what
  \<open>print\<close> adds to the calls. If no call of the adapter's \<open>print\<close> in \<open>new\<close> succeeded,
  there are exactly \<open>k\<close> of them and \<open>print\<close> rejects with the message
  "Print failed after k attempts. Last error: m", where \<open>m\<close> is the message of the error
  of the last of these calls ("Unknown error" when that message is empty or there was no
  call). If one succeeded, \<open>print\<close> resolves and that call is the last event and the
  only success.
\<close>

theorem print_makes_maxRetries_attempts:
  assumes "isConnected a (device w)" and "0 \<le> maxRetries cfg"
  shows "\<exists>new. calls (snd (PrinterManager_print (Some a) cfg d w)) = calls w @ new \<and>
     ((\<forall>ev\<in>set new. \<not> isPrintOk ev) \<longrightarrow>
        int (length (filter isPrint new)) = maxRetries cfg \<and>
        (0 < maxRetries cfg \<longrightarrow> lastFailure None new \<noteq> None) \<and>
        fst (PrinterManager_print (Some a) cfg d w) =
          Inl (Error (''Print failed after '' @ showInt (maxRetries cfg) @
                      '' attempts. Last error: '' @
                      (case lastFailure None new of
                         None \<Rightarrow> ''Unknown error''
                       | Some e \<Rightarrow> if message e = [] then ''Unknown error'' else message e)))) \<and>
     ((\<exists>ev\<in>set new. isPrintOk ev) \<longrightarrow>
        fst (PrinterManager_print (Some a) cfg d w) = Inr () \<and>
        (\<exists>pre. new = pre @ [Print d (Inr ())] \<and> (\<forall>ev\<in>set pre. \<not> isPrintOk ev)))"
proof -
  have eq: "PrinterManager_print (Some a) cfg d w = retryLoop a cfg d 1 None w"
    using assms(1) by (simp add: PrinterManager_print_def)
  obtain new where c: "calls (snd (retryLoop a cfg d 1 None w)) = calls w @ new"
    and s: "retrySpec cfg d 1 None (fst (retryLoop a cfg d 1 None w)) new"
    using retryLoop_spec by blast
  show ?thesis
  proof (cases "fst (retryLoop a cfg d 1 None w)")
    case (Inr u)
    with s obtain pre where pre: "new = pre @ [Print d (Inr ())]" "\<forall>ev\<in>set pre. \<not> isPrintOk ev"
      by (auto simp: retrySpec_def)
    then have "\<not> (\<forall>ev\<in>set new. \<not> isPrintOk ev)" by simp
    with pre c Inr show ?thesis unfolding eq by (intro exI [of _ new]) auto
  next
    case (Inl e)
    with s have f: "\<forall>ev\<in>set new. \<not> isPrintOk ev"
      and n: "length (filter isPrint new) = nat (maxRetries cfg)"
      and e: "e = exhausted cfg (lastFailure None new)"
      by (auto simp: retrySpec_def)
    have "0 < maxRetries cfg \<longrightarrow> lastFailure None new \<noteq> None"
    proof
      assume "0 < maxRetries cfg"
      with n have "filter isPrint new \<noteq> []" by auto
      then show "lastFailure None new \<noteq> None" using f by (rule lastFailure_failed)
    qed
    with f n e c Inl assms(2) show ?thesis
      unfolding eq by (intro exI [of _ new]) (auto simp: exhausted_def)
  qed
qed

theorem print_makes_maxRetries_attempts_witness:
  "isConnected USBAdapter_methods (device (usbReady [Some ''jam'', Some ''cover open''])) \<and>
   0 \<le> maxRetries (sampleConfig 2) \<and>
   length (filter isPrint (calls (snd (PrinterManager_print (Some USBAdapter_methods)
     (sampleConfig 2) [0x41] (usbReady [Some ''jam'', Some ''cover open'']))))) = 2 \<and>
   fst (PrinterManager_print (Some USBAdapter_methods) (sampleConfig 2) [0x41]
         (usbReady [Some ''jam'', Some ''cover open''])) =
     Inl (Error ''Print failed after 2 attempts. Last error: Failed to print: cover open'')"
proof -
  let ?w = "usbReady [Some ''jam'', Some ''cover open'']"
  let ?run = "PrinterManager_print (Some USBAdapter_methods) (sampleConfig 2) [0x41] ?w"
  have h1: "isConnected USBAdapter_methods (device ?w)" by code_simp
  have h2: "0 \<le> maxRetries (sampleConfig 2)" by (simp add: sampleConfig_def)
  have c: "calls (snd ?run) =
             [Print [0x41] (Inl (Error ''Failed to print: jam'')), Delay 10, Disconnect (Inr ()),
              Connect (Inr ()), Print [0x41] (Inl (Error ''Failed to print: cover open''))]"
    by code_simp
  have c0: "calls ?w = []" by (simp add: usbReady_def)
  from print_makes_maxRetries_attempts [OF h1 h2, of "[0x41]"] obtain new where
    n: "calls (snd ?run) = calls ?w @ new" and
    f: "(\<forall>ev\<in>set new. \<not> isPrintOk ev) \<longrightarrow>
        int (length (filter isPrint new)) = maxRetries (sampleConfig 2) \<and>
        (0 < maxRetries (sampleConfig 2) \<longrightarrow> lastFailure None new \<noteq> None) \<and>
        fst ?run =
          Inl (Error (''Print failed after '' @ showInt (maxRetries (sampleConfig 2)) @
                      '' attempts. Last error: '' @
                      (case lastFailure None new of
                         None \<Rightarrow> ''Unknown error''
                       | Some e \<Rightarrow> if message e = [] then ''Unknown error'' else message e)))"
    by blast
  from n c c0 have new: "new =
             [Print [0x41] (Inl (Error ''Failed to print: jam'')), Delay 10, Disconnect (Inr ()),
              Connect (Inr ()), Print [0x41] (Inl (Error ''Failed to print: cover open''))]"
    by simp
  then have "\<forall>ev\<in>set new. \<not> isPrintOk ev" by simp
  with f have "int (length (filter isPrint new)) = maxRetries (sampleConfig 2)" and
    "fst ?run =
          Inl (Error (''Print failed after '' @ showInt (maxRetries (sampleConfig 2)) @
                      '' attempts. Last error: '' @
                      (case lastFailure None new of
                         None \<Rightarrow> ''Unknown error''
                       | Some e \<Rightarrow> if message e = [] then ''Unknown error'' else message e)))"
    by blast+
  moreover have "showInt 2 = ''2''" by code_simp
  ultimately have "length (filter isPrint (calls (snd ?run))) = 2" and
    "fst ?run = Inl (Error ''Print failed after 2 attempts. Last error: Failed to print: cover open'')"
    using n c0 unfolding new by (simp_all add: sampleConfig_def)
  with h1 h2 show ?thesis by blast
qed

text \<open>
  Claim C5. When the adapter reports not connected, the first thing \<open>print\<close> does is one
  call of \<open>connect\<close>; what follows, if anything, starts with a call of the adapter's
  \<open>print\<close>. If that \<open>connect\<close> fails with \<open>e\<close>, nothing follows: \<open>print\<close> rejects with
  \<open>e\<close> itself and the adapter's \<open>print\<close> is not called.
\<close>

theorem print_connects_first_when_disconnected:
  assumes "\<not> isConnected a (device w)"
  shows "\<exists>new. calls (snd (PrinterManager_print (Some a) cfg d w)) =
               calls w @ Connect (fst (connect a (device w))) # new \<and>
         (new = [] \<or> (\<exists>r rest. new = Print d r # rest)) \<and>
         (\<forall>e. fst (connect a (device w)) = Inl e \<longrightarrow>
            new = [] \<and>
            PrinterManager_print (Some a) cfg d w =
              (Inl e, w\<lparr>device := snd (connect a (device w)),
                        calls := calls w @ [Connect (Inl e)]\<rparr>))"
proof -
  obtain r dev where c: "connect a (device w) = (r, dev)" by (cases "connect a (device w)")
  show ?thesis
  proof (cases r)
    case (Inl e)
    with c assms show ?thesis
      by (simp add: PrinterManager_print_def PrinterManager_connect_def)
  next
    case (Inr u)
    define w1 where "w1 = w\<lparr>device := dev, calls := calls w @ [Connect (Inr ())]\<rparr>"
    have eq: "PrinterManager_print (Some a) cfg d w = retryLoop a cfg d 1 None w1"
      using c Inr assms by (simp add: PrinterManager_print_def PrinterManager_connect_def w1_def)
    obtain new where "calls (snd (retryLoop a cfg d 1 None w1)) = calls w1 @ new"
      "if 1 \<le> maxRetries cfg then \<exists>r rest. new = Print d r # rest else new = []"
      using retryLoop_head by blast
    then have "calls (snd (PrinterManager_print (Some a) cfg d w)) = calls w @ Connect (Inr ()) # new"
      "new = [] \<or> (\<exists>r rest. new = Print d r # rest)"
      unfolding eq by (auto simp: w1_def split: if_splits)
    with c Inr show ?thesis by auto
  qed
qed

theorem print_connects_first_when_disconnected_witness:
  "\<not> isConnected USBAdapter_methods (device usbOffline) \<and>
   fst (connect USBAdapter_methods (device usbOffline)) =
     Inl (connectFailed ''POS-80'' (''USB printer '' @ quoted ''POS-80'' @ '' is not connected'')) \<and>
   fst (PrinterManager_print (Some USBAdapter_methods) (sampleConfig 3) [0x41] usbOffline) =
     Inl (connectFailed ''POS-80'' (''USB printer '' @ quoted ''POS-80'' @ '' is not connected'')) \<and>
   calls (snd (PrinterManager_print (Some USBAdapter_methods) (sampleConfig 3) [0x41] usbOffline)) =
     [Connect (Inl (connectFailed ''POS-80''
        (''USB printer '' @ quoted ''POS-80'' @ '' is not connected'')))]"
proof -
  let ?e = "connectFailed ''POS-80'' (''USB printer '' @ quoted ''POS-80'' @ '' is not connected'')"
  have h: "\<not> isConnected USBAdapter_methods (device usbOffline)" by code_simp
  have c: "fst (connect USBAdapter_methods (device usbOffline)) = Inl ?e" by code_simp
  have c0: "calls usbOffline = []" by (simp add: usbOffline_def)
  from print_connects_first_when_disconnected [OF h, of "sampleConfig 3" "[0x41]"] c
  have "PrinterManager_print (Some USBAdapter_methods) (sampleConfig 3) [0x41] usbOffline =
          (Inl ?e, usbOffline\<lparr>device := snd (connect USBAdapter_methods (device usbOffline)),
                             calls := calls usbOffline @ [Connect (Inl ?e)]\<rparr>)"
    by auto
  with h c c0 show ?thesis by simp
qed

text \<open>
  Claim C10. Nothing checks that \<open>maxRetries\<close> is positive. With a connected adapter
  and \<open>maxRetries \<le> 0\<close>, \<open>print\<close> calls nothing on the adapter (the world is unchanged)
  and rejects with "Print failed after n attempts. Last error: Unknown error", where
  \<open>n\<close> is the printed \<open>maxRetries\<close>: its decimal form, zero or negative, when
  \<open>maxRetries\<close> is above \<open>- 2 ^ 53\<close>, the range in which JavaScript prints an integer
  in decimal.
\<close>

theorem print_nonpositive_maxRetries:
  assumes "isConnected a (device w)" and "maxRetries cfg \<le> 0"
  shows "snd (PrinterManager_print (Some a) cfg d w) = w \<and>
         (\<exists>n. fst (PrinterManager_print (Some a) cfg d w) =
                Inl (Error (''Print failed after '' @ n @
                            '' attempts. Last error: Unknown error'')) \<and>
              (- (2 ^ 53) < maxRetries cfg \<longrightarrow> n = showInt (maxRetries cfg)))"
  using assms
  by (simp add: PrinterManager_print_def retryLoop.simps [of a cfg d 1 None w] exhausted_def)

theorem print_nonpositive_maxRetries_witness:
  "isConnected USBAdapter_methods (device (usbReady [])) \<and> maxRetries (sampleConfig 0) \<le> 0 \<and>
   PrinterManager_print (Some USBAdapter_methods) (sampleConfig 0) [0x41] (usbReady []) =
     (Inl (Error ''Print failed after 0 attempts. Last error: Unknown error''), usbReady [])"
proof -
  have h1: "isConnected USBAdapter_methods (device (usbReady []))" by code_simp
  have h2: "maxRetries (sampleConfig 0) \<le> 0" by (simp add: sampleConfig_def)
  have h3: "- (2 ^ 53) < maxRetries (sampleConfig 0)" by (simp add: sampleConfig_def)
  have z: "showInt (maxRetries (sampleConfig 0)) = ''0''"
    unfolding sampleConfig_def by code_simp
  from print_nonpositive_maxRetries [OF h1 h2, of "[0x41]"] h3 z
  have "snd (PrinterManager_print (Some USBAdapter_methods) (sampleConfig 0) [0x41]
               (usbReady [])) = usbReady []"
    and "fst (PrinterManager_print (Some USBAdapter_methods) (sampleConfig 0) [0x41]
               (usbReady [])) =
           Inl (Error ''Print failed after 0 attempts. Last error: Unknown error'')"
    by auto
  with h1 h2 show ?thesis by (simp add: prod_eq_iff)
qed

text \<open>
  Claim C6, as amended. After a failed attempt that is not the last allowed one, the
  manager waits \<open>retryDelayMs\<close>, calls \<open>disconnect\<close> and, only if \<open>disconnect\<close>
  succeeded, \<open>connect\<close>; an error of either is written as a warning and nothing more.
  The loop goes on with the next attempt, which calls the adapter's \<open>print\<close>, and the
  outcome of the loop is success or the exhaustion error built from an error of
  \<open>print\<close>, never the error of the reconnect step.
\<close>

theorem retry_reconnect_step:
  assumes "attempt < maxRetries cfg" and "print a d (device w) = (Inl e, dev)"
  shows "\<exists>w'. calls w' = calls w @
                 [Print d (Inl e), Delay (retryDelayMs cfg), Disconnect (fst (disconnect a dev))] @
                 (case fst (disconnect a dev) of
                    Inl x \<Rightarrow> [Warn (attempt + 1) x]
                  | Inr _ \<Rightarrow>
                      (case fst (connect a (snd (disconnect a dev))) of
                         Inl x \<Rightarrow> [Connect (Inl x), Warn (attempt + 1) x]
                       | Inr _ \<Rightarrow> [Connect (Inr ())])) \<and>
              retryLoop a cfg d attempt lastError w = retryLoop a cfg d (attempt + 1) (Some e) w' \<and>
              (\<exists>r rest. calls (snd (retryLoop a cfg d attempt lastError w)) =
                          calls w' @ Print d r # rest) \<and>
              (fst (retryLoop a cfg d attempt lastError w) = Inr () \<or>
               (\<exists>l. fst (retryLoop a cfg d attempt lastError w) = Inl (exhausted cfg (Some l))))"
proof -
  define w1 where "w1 = w\<lparr>device := dev, calls := calls w @ [Print d (Inl e)]\<rparr>"
  define w2 where "w2 = reconnect a attempt (delay (retryDelayMs cfg) w1)"
  have unfold: "retryLoop a cfg d attempt lastError w = retryLoop a cfg d (attempt + 1) (Some e) w2"
    using assms by (simp add: retryLoop.simps [of a cfg d attempt lastError w] w1_def w2_def Let_def)
  have shape: "calls w2 = calls w @
                 [Print d (Inl e), Delay (retryDelayMs cfg), Disconnect (fst (disconnect a dev))] @
                 (case fst (disconnect a dev) of
                    Inl x \<Rightarrow> [Warn (attempt + 1) x]
                  | Inr _ \<Rightarrow>
                      (case fst (connect a (snd (disconnect a dev))) of
                         Inl x \<Rightarrow> [Connect (Inl x), Warn (attempt + 1) x]
                       | Inr _ \<Rightarrow> [Connect (Inr ())]))"
    by (auto simp: w2_def w1_def reconnect_def delay_def warn_def PrinterManager_disconnect_def
          PrinterManager_connect_def split: prod.splits sum.splits)
  obtain new where "calls (snd (retryLoop a cfg d (attempt + 1) (Some e) w2)) = calls w2 @ new"
    "if attempt + 1 \<le> maxRetries cfg then \<exists>r rest. new = Print d r # rest else new = []"
    using retryLoop_head by blast
  with assms(1) have nxt: "\<exists>r rest. calls (snd (retryLoop a cfg d attempt lastError w)) =
                          calls w2 @ Print d r # rest"
    unfolding unfold by auto
  have out: "fst (retryLoop a cfg d attempt lastError w) = Inr () \<or>
               (\<exists>l. fst (retryLoop a cfg d attempt lastError w) = Inl (exhausted cfg (Some l)))"
    unfolding unfold by (rule retryLoop_outcome)
  from shape unfold nxt out show ?thesis by blast
qed

theorem retry_reconnect_step_witness:
  "1 < maxRetries (sampleConfig 3) \<and>
   print USBAdapter_methods [0x41] (device (usbReady [Some ''jam''])) =
     (Inl (Error ''Failed to print: jam''),
      snd (print USBAdapter_methods [0x41] (device (usbReady [Some ''jam''])))) \<and>
   (\<exists>w'. calls w' = [Print [0x41] (Inl (Error ''Failed to print: jam'')), Delay 10,
                     Disconnect (Inr ()), Connect (Inr ())] \<and>
         retryLoop USBAdapter_methods (sampleConfig 3) [0x41] 1 None (usbReady [Some ''jam'']) =
         retryLoop USBAdapter_methods (sampleConfig 3) [0x41] 2
           (Some (Error ''Failed to print: jam'')) w')"
proof -
  let ?w = "usbReady [Some ''jam'']"
  let ?dev = "snd (print USBAdapter_methods [0x41] (device ?w))"
  have h1: "1 < maxRetries (sampleConfig 3)" by (simp add: sampleConfig_def)
  have "fst (print USBAdapter_methods [0x41] (device ?w)) = Inl (Error ''Failed to print: jam'')"
    by code_simp
  then have h2: "print USBAdapter_methods [0x41] (device ?w) =
                   (Inl (Error ''Failed to print: jam''), ?dev)"
    by (simp add: prod_eq_iff)
  have d: "fst (disconnect USBAdapter_methods ?dev) = Inr ()" by code_simp
  have c: "fst (connect USBAdapter_methods (snd (disconnect USBAdapter_methods ?dev))) = Inr ()"
    by code_simp
  have c0: "calls ?w = []" by (simp add: usbReady_def)
  have r: "retryDelayMs (sampleConfig 3) = 10" by (simp add: sampleConfig_def)
  from retry_reconnect_step [OF h1 h2, of None] obtain w' where
    "calls w' = calls ?w @
                 [Print [0x41] (Inl (Error ''Failed to print: jam'')),
                  Delay (retryDelayMs (sampleConfig 3)),
                  Disconnect (fst (disconnect USBAdapter_methods ?dev))] @
                 (case fst (disconnect USBAdapter_methods ?dev) of
                    Inl x \<Rightarrow> [Warn (1 + 1) x]
                  | Inr _ \<Rightarrow>
                      (case fst (connect USBAdapter_methods
                                  (snd (disconnect USBAdapter_methods ?dev))) of
                         Inl x \<Rightarrow> [Connect (Inl x), Warn (1 + 1) x]
                       | Inr _ \<Rightarrow> [Connect (Inr ())]))"
    "retryLoop USBAdapter_methods (sampleConfig 3) [0x41] 1 None ?w =
     retryLoop USBAdapter_methods (sampleConfig 3) [0x41] (1 + 1)
       (Some (Error ''Failed to print: jam'')) w'"
    by blast
  then have "calls w' = [Print [0x41] (Inl (Error ''Failed to print: jam'')), Delay 10,
                     Disconnect (Inr ()), Connect (Inr ())] \<and>
         retryLoop USBAdapter_methods (sampleConfig 3) [0x41] 1 None ?w =
         retryLoop USBAdapter_methods (sampleConfig 3) [0x41] 2
           (Some (Error ''Failed to print: jam'')) w'"
    by (simp add: d c c0 r)
  with h1 h2 show ?thesis by blast
qed

text \<open>
  Claim C6 as stated fails when \<open>disconnect\<close> itself fails. A serial adapter on an open
  port, \<open>maxRetries = 2\<close>: the write of the first attempt fails, the manager waits and
  calls \<open>disconnect\<close>, the close fails, the error is warned about and \<open>connect\<close> is not
  called; the second attempt runs on the disconnected adapter.
\<close>

theorem reconnect_skips_connect_counterexample:
  "calls (snd (PrinterManager_print (Some SerialAdapter_methods) (sampleConfig 2) [0x41]
     \<lparr>device = (serialOpen, serialEnv [0] [] [Some ''busy''] [Some ''EIO'']), calls = []\<rparr>)) =
     [Print [0x41] (Inl (Error ''Failed to write to serial port: EIO'')),
      Delay 10,
      Disconnect (Inl (Error ''Failed to close serial port: busy'')),
      Warn 2 (Error ''Failed to close serial port: busy''),
      Print [0x41] (Inl (Error ''Printer is not connected''))]"
  by (simp add: PrinterManager_print_def retryLoop.simps SerialAdapter_methods_def
        SerialAdapter_print_def SerialAdapter_disconnect_def ensureConnected_def
        BaseAdapter_isConnected_def reconnect_def delay_def warn_def
        PrinterManager_disconnect_def PrinterManager_connect_def exhausted_def
        sampleConfig_def serialOpen_def serialEnv_def Let_def)

lemma utf8_newlines: "utf8 [0x0A, 0x0A] = [0x0A, 0x0A]"
  by (simp add: utf8_def loneUnit_def highSurrogate_def lowSurrogate_def utf8CodePoint_def)

lemma printBuffer_bytes:
  "printBuffer d = [0x1B, 0x40] @ utf8 d @ [0x0A, 0x0A] @ [0x1D, 0x56, 0x41, 0x00]"
  by (simp add: printBuffer_def initCommand_def cutCommand_def utf8_newlines)

text \<open>
  Claim C3. On a connected serial adapter whose port is open, \<open>print\<close> issues exactly one
  write, of the buffer made of 0x1B 0x40, the UTF-8 encoding of the payload, 0x0A 0x0A
  and 0x1D 0x56 0x41 0x00, followed by at most a drain of the same port. It resolves
  exactly when the write and the drain both report success, and then the drain has been
  issued after the write.
\<close>

theorem serial_print_writes_one_buffer:
  assumes "connected a" and "port a = Some p" and "p \<in> set (opened w)"
  shows "(\<exists>rest. wire (snd (snd (SerialAdapter_print d (a, w)))) =
                  wire w @ PortWrite p ([0x1B, 0x40] @ utf8 d @ [0x0A, 0x0A] @
                                        [0x1D, 0x56, 0x41, 0x00]) # rest \<and>
                (rest = [] \<or> rest = [PortDrain p]) \<and>
                (fst (SerialAdapter_print d (a, w)) = Inr () \<longrightarrow> rest = [PortDrain p])) \<and>
         (fst (SerialAdapter_print d (a, w)) = Inr () \<longleftrightarrow>
            fst (reply (writeReplies w)) = None \<and> fst (reply (drainReplies w)) = None)"
  using assms
  by (auto simp: SerialAdapter_print_def ensureConnected_def Let_def printBuffer_bytes
           split: prod.splits option.splits)

theorem serial_print_writes_one_buffer_witness:
  "connected serialOpen \<and> port serialOpen = Some 0 \<and>
   0 \<in> set (opened (serialEnv [0] [] [] [])) \<and>
   fst (SerialAdapter_print [0x41] (serialOpen, serialEnv [0] [] [] [])) = Inr () \<and>
   wire (snd (snd (SerialAdapter_print [0x41] (serialOpen, serialEnv [0] [] [] [])))) =
     [PortWrite 0 [0x1B, 0x40, 0x41, 0x0A, 0x0A, 0x1D, 0x56, 0x41, 0x00], PortDrain 0]"
proof -
  let ?w = "serialEnv [0] [] [] []"
  have h1: "connected serialOpen" by (simp add: serialOpen_def)
  have h2: "port serialOpen = Some 0" by (simp add: serialOpen_def)
  have h3: "0 \<in> set (opened ?w)" by (simp add: serialEnv_def)
  have r: "fst (reply (writeReplies ?w)) = None \<and> fst (reply (drainReplies ?w)) = None"
    by (simp add: serialEnv_def)
  have u: "utf8 [0x41] = [0x41]"
    by (simp add: utf8_def loneUnit_def highSurrogate_def lowSurrogate_def utf8CodePoint_def)
  have w0: "wire ?w = []" by (simp add: serialEnv_def)
  from serial_print_writes_one_buffer [OF h1 h2 h3, of "[0x41]"] r
  have ok: "fst (SerialAdapter_print [0x41] (serialOpen, ?w)) = Inr ()" by blast
  with serial_print_writes_one_buffer [OF h1 h2 h3, of "[0x41]"]
  have "wire (snd (snd (SerialAdapter_print [0x41] (serialOpen, ?w)))) =
          wire ?w @ PortWrite 0 ([0x1B, 0x40] @ utf8 [0x41] @ [0x0A, 0x0A] @
                                 [0x1D, 0x56, 0x41, 0x00]) # [PortDrain 0]"
    by auto
  with h1 h2 h3 ok show ?thesis by (simp add: u w0)
qed

text \<open>
  Claim C4. For the serial, the USB and the mock adapter, \<open>print\<close> on an adapter whose
  \<open>isConnected\<close> is false fails with the error "Printer is not connected" and leaves the
  adapter and its device as they were: nothing is written to a port, a spooler or the
  console.
\<close>

theorem print_requires_connection:
  "(\<not> isConnected SerialAdapter_methods s \<longrightarrow>
      print SerialAdapter_methods d s = (Inl (Error ''Printer is not connected''), s)) \<and>
   (\<not> isConnected USBAdapter_methods u \<longrightarrow>
      print USBAdapter_methods d u = (Inl (Error ''Printer is not connected''), u)) \<and>
   (\<not> isConnected MockAdapter_methods m \<longrightarrow>
      print MockAdapter_methods d m = (Inl (Error ''Printer is not connected''), m))"
  by (cases s, cases u, cases m)
     (simp add: SerialAdapter_methods_def USBAdapter_methods_def MockAdapter_methods_def
        BaseAdapter_isConnected_def SerialAdapter_print_def USBAdapter_print_def
        MockAdapter_print_def ensureConnected_def)

theorem print_requires_connection_witness:
  "\<not> isConnected SerialAdapter_methods (serialNew, serialEnv [] [] [] []) \<and>
   print SerialAdapter_methods [0x41] (serialNew, serialEnv [] [] [] []) =
     (Inl (Error ''Printer is not connected''), (serialNew, serialEnv [] [] [] [])) \<and>
   \<not> isConnected USBAdapter_methods (device usbOffline) \<and>
   print USBAdapter_methods [0x41] (device usbOffline) =
     (Inl (Error ''Printer is not connected''), device usbOffline) \<and>
   \<not> isConnected MockAdapter_methods
       (\<lparr>connected = False, delayMs = 500\<rparr>, \<lparr>console = [], timers = []\<rparr>) \<and>
   print MockAdapter_methods [0x41]
       (\<lparr>connected = False, delayMs = 500\<rparr>, \<lparr>console = [], timers = []\<rparr>) =
     (Inl (Error ''Printer is not connected''),
      (\<lparr>connected = False, delayMs = 500\<rparr>, \<lparr>console = [], timers = []\<rparr>))"
proof -
  have h1: "\<not> isConnected SerialAdapter_methods (serialNew, serialEnv [] [] [] [])"
    by code_simp
  have h2: "\<not> isConnected USBAdapter_methods (device usbOffline)" by code_simp
  have h3: "\<not> isConnected MockAdapter_methods
       (\<lparr>connected = False, delayMs = 500\<rparr>, \<lparr>console = [], timers = []\<rparr>)"
    by code_simp
  from print_requires_connection [of "(serialNew, serialEnv [] [] [] [])" "[0x41]"
      "device usbOffline" "(\<lparr>connected = False, delayMs = 500\<rparr>, \<lparr>console = [], timers = []\<rparr>)"]
    h1 h2 h3
  show ?thesis by blast
qed

text \<open>
  Claim C9. For each adapter, after \<open>disconnect\<close> (whatever its outcome)
  \<open>isConnected\<close> is false, and a second \<open>disconnect\<close> resolves and changes nothing. The
  USB and the mock \<open>disconnect\<close> always resolve; the serial one resolves whenever the
  adapter holds no open port, as after construction.
\<close>

theorem disconnect_idempotent:
  "(case disconnect SerialAdapter_methods s of
      (r, s1) \<Rightarrow> \<not> isConnected SerialAdapter_methods s1 \<and>
                 disconnect SerialAdapter_methods s1 = (Inr (), s1)) \<and>
   (case disconnect USBAdapter_methods u of
      (r, u1) \<Rightarrow> r = Inr () \<and> \<not> isConnected USBAdapter_methods u1 \<and>
                 disconnect USBAdapter_methods u1 = (Inr (), u1)) \<and>
   (case disconnect MockAdapter_methods m of
      (r, m1) \<Rightarrow> r = Inr () \<and> \<not> isConnected MockAdapter_methods m1 \<and>
                 disconnect MockAdapter_methods m1 = (Inr (), m1)) \<and>
   ((\<forall>p. port (fst s) = Some p \<longrightarrow> p \<notin> set (opened (snd s))) \<longrightarrow>
      fst (disconnect SerialAdapter_methods s) = Inr ())"
  by (cases s, cases u, cases m)
     (auto simp: SerialAdapter_methods_def USBAdapter_methods_def MockAdapter_methods_def
        BaseAdapter_isConnected_def SerialAdapter_disconnect_def USBAdapter_disconnect_def
        MockAdapter_disconnect_def split: prod.splits option.splits)

theorem disconnect_idempotent_witness:
  "port (fst (serialNew, serialEnv [] [] [] [])) = None \<and>
   fst (disconnect SerialAdapter_methods (serialNew, serialEnv [] [] [] [])) = Inr () \<and>
   disconnect SerialAdapter_methods
     (snd (disconnect SerialAdapter_methods (serialOpen, serialEnv [0] [] [Some ''busy''] []))) =
     (Inr (), snd (disconnect SerialAdapter_methods
                     (serialOpen, serialEnv [0] [] [Some ''busy''] [])))"
proof -
  have n: "port (fst (serialNew, serialEnv [] [] [] [])) = None"
    by (simp add: serialNew_def)
  then have h: "\<forall>p. port (fst (serialNew, serialEnv [] [] [] [])) = Some p \<longrightarrow>
        p \<notin> set (opened (snd (serialNew, serialEnv [] [] [] [])))"
    by simp
  from disconnect_idempotent [of "(serialNew, serialEnv [] [] [] [])"
      "device usbOffline" "(\<lparr>connected = False, delayMs = 500\<rparr>, \<lparr>console = [], timers = []\<rparr>)"] h
  have a: "fst (disconnect SerialAdapter_methods (serialNew, serialEnv [] [] [] [])) = Inr ()"
    by blast
  from disconnect_idempotent [of "(serialOpen, serialEnv [0] [] [Some ''busy''] [])"
      "device usbOffline" "(\<lparr>connected = False, delayMs = 500\<rparr>, \<lparr>console = [], timers = []\<rparr>)"]
  have b: "disconnect SerialAdapter_methods
     (snd (disconnect SerialAdapter_methods (serialOpen, serialEnv [0] [] [Some ''busy''] []))) =
     (Inr (), snd (disconnect SerialAdapter_methods
                     (serialOpen, serialEnv [0] [] [Some ''busy''] [])))"
    by (simp add: case_prod_beta)
  from n a b show ?thesis by blast
qed

text \<open>
  Claim C8, as amended. \<open>connect\<close> does not close a transport the adapter holds. The
  serial \<open>connect\<close> issues no close: every port that was open is still open after it, the
  adapter then refers to a newly constructed port (unless the construction threw), and
  when it resolves that new port has been opened in addition. The USB \<open>connect\<close>
  replaces the printer object by a new one. The port held before is closed by
  \<open>disconnect\<close> only: when it was the only open port, \<open>disconnect\<close> with a successful
  close followed by \<open>connect\<close> leaves at most one port open.
\<close>

theorem connect_keeps_prior_transport:
  "(case SerialAdapter_connect (a, w) of
      (r, a', w') \<Rightarrow>
        (\<exists>ops. wire w' = wire w @ ops \<and> (\<forall>q. PortClose q \<notin> set ops)) \<and>
        set (opened w) \<subseteq> set (opened w') \<and>
        (fst (reply (ctorReplies w)) = None \<longrightarrow> port a' = Some (created w)) \<and>
        (r = Inr () \<longrightarrow> opened w' = opened w @ [created w])) \<and>
   (case USBAdapter_connect (b, u) of
      (r, b', u') \<Rightarrow> fst (reply (newReplies u)) = None \<longrightarrow> printer b' = Some (printers u)) \<and>
   (port a = Some p \<and> opened w = [p] \<and> fst (reply (closeReplies w)) = None \<longrightarrow>
      length (opened (snd (snd (SerialAdapter_connect (snd (SerialAdapter_disconnect (a, w)))))))
        \<le> 1)"
proof -
  have 1: "case SerialAdapter_connect (a, w) of
      (r, a', w') \<Rightarrow>
        (\<exists>ops. wire w' = wire w @ ops \<and> (\<forall>q. PortClose q \<notin> set ops)) \<and>
        set (opened w) \<subseteq> set (opened w') \<and>
        (fst (reply (ctorReplies w)) = None \<longrightarrow> port a' = Some (created w)) \<and>
        (r = Inr () \<longrightarrow> opened w' = opened w @ [created w])"
    by (auto simp: SerialAdapter_connect_def Let_def split: prod.splits option.splits)
  have 2: "case USBAdapter_connect (b, u) of
      (r, b', u') \<Rightarrow> fst (reply (newReplies u)) = None \<longrightarrow> printer b' = Some (printers u)"
    by (auto simp: USBAdapter_connect_def Let_def split: prod.splits option.splits probe.splits)
  have 3: "length (opened (snd (snd (SerialAdapter_connect (snd (SerialAdapter_disconnect (a, w)))))))
        \<le> 1" if "port a = Some p \<and> opened w = [p] \<and> fst (reply (closeReplies w)) = None"
    using that
    by (auto simp: SerialAdapter_connect_def SerialAdapter_disconnect_def Let_def
             split: prod.splits option.splits)
  from 1 2 3 show ?thesis by blast
qed

theorem connect_keeps_prior_transport_witness:
  "port serialOpen = Some 0 \<and> opened (serialEnv [0] [] [] []) = [0] \<and>
   fst (reply (closeReplies (serialEnv [0] [] [] []))) = None \<and>
   fst (reply (ctorReplies (serialEnv [0] [] [] []))) = None \<and>
   fst (SerialAdapter_connect (serialOpen, serialEnv [0] [] [] [])) = Inr () \<and>
   opened (snd (snd (SerialAdapter_connect (serialOpen, serialEnv [0] [] [] [])))) = [0, 1] \<and>
   length (opened (snd (snd (SerialAdapter_connect
     (snd (SerialAdapter_disconnect (serialOpen, serialEnv [0] [] [] []))))))) \<le> 1"
proof -
  let ?w = "serialEnv [0] [] [] []"
  have h1: "port serialOpen = Some 0 \<and> opened ?w = [0] \<and> fst (reply (closeReplies ?w)) = None"
    by (simp add: serialOpen_def serialEnv_def)
  have h2: "fst (reply (ctorReplies ?w)) = None" by (simp add: serialEnv_def)
  have h3: "fst (SerialAdapter_connect (serialOpen, ?w)) = Inr ()" by code_simp
  have k: "created ?w = 1" by (simp add: serialEnv_def)
  from connect_keeps_prior_transport
      [where a = serialOpen and w = ?w and p = 0 and b = "fst (device usbOffline)"
         and u = "snd (device usbOffline)"] h1
  have a: "length (opened (snd (snd (SerialAdapter_connect
     (snd (SerialAdapter_disconnect (serialOpen, ?w))))))) \<le> 1"
    by blast
  from connect_keeps_prior_transport
      [where a = serialOpen and w = ?w and p = 0 and b = "fst (device usbOffline)"
         and u = "snd (device usbOffline)"] h3
  have "opened (snd (snd (SerialAdapter_connect (serialOpen, ?w)))) = opened ?w @ [created ?w]"
    by (simp add: case_prod_beta)
  with h1 k have b: "opened (snd (snd (SerialAdapter_connect (serialOpen, ?w)))) = [0, 1]"
    by simp
  from h1 h2 h3 a b show ?thesis by blast
qed

text \<open>
  Claim C8 as stated fails on the serial adapter. \<open>connect\<close> on a connected adapter whose
  port 0 is open issues no close. If the new port opens, two ports are open afterwards;
  if it does not (as when the device refuses a second open), port 0 stays open while the
  adapter refers to port 1 only.
\<close>

theorem connect_leaks_open_port_counterexample:
  "opened (snd (snd (SerialAdapter_connect (serialOpen, serialEnv [0] [] [] [])))) = [0, 1] \<and>
   port (fst (snd (SerialAdapter_connect (serialOpen, serialEnv [0] [] [] [])))) = Some 1 \<and>
   wire (snd (snd (SerialAdapter_connect (serialOpen, serialEnv [0] [] [] [])))) = [PortOpen 1] \<and>
   opened (snd (snd (SerialAdapter_connect
     (serialOpen, serialEnv [0] [Some ''Access denied''] [] [])))) = [0] \<and>
   port (fst (snd (SerialAdapter_connect
     (serialOpen, serialEnv [0] [Some ''Access denied''] [] [])))) = Some 1 \<and>
   wire (snd (snd (SerialAdapter_connect
     (serialOpen, serialEnv [0] [Some ''Access denied''] [] [])))) = [PortOpen 1]"
  by (simp add: SerialAdapter_connect_def serialOpen_def serialEnv_def Let_def)

end
